theory Spec2Isabelle
  imports
    Complex_Main
    "HOL-Library.Sublist"
    "HOL-Library.Char_ord"
    "HOL-Library.List_Lexorder"
    "HOL-Library.Product_Lexorder"
begin

section \<open>Claim extraction and verification (consistency\_checker.py)\<close>

text \<open>
  A shallow embedding of \<^verbatim>\<open>consistency_checker.py\<close>. Conventions:
  \<^item> Python \<^verbatim>\<open>str\<close> is \<^typ>\<open>string\<close>; the text is taken to be ASCII, so \<^verbatim>\<open>\d\<close> is
    \<open>0\<close>..\<open>9\<close>, \<^verbatim>\<open>\s\<close> is the ASCII white space of \<^verbatim>\<open>str.isspace\<close>, and
    \<^verbatim>\<open>str.lower\<close> maps \<open>A\<close>..\<open>Z\<close> to \<open>a\<close>..\<open>z\<close>.
  \<^item> Python \<^verbatim>\<open>float\<close> is \<^typ>\<open>real\<close>: comparisons and thresholds are exact, rounding is
    not modelled. The one place where a float leaves the reals, the division by
    \<^verbatim>\<open>first_close\<close> when it is zero, is modelled explicitly (type \<open>pct\<close>).
  \<^item> The libraries the module calls are parameters: the sentence tokenizer
    (\<^verbatim>\<open>nltk.sent_tokenize\<close>) and the compound polarity of the sentiment analyzer
    (\<^verbatim>\<open>SentimentIntensityAnalyzer().polarity_scores(text)['compound']\<close>).
  \<^item> A \<^verbatim>\<open>raise\<close> is the \<open>Inl\<close> of a sum type; every \<^verbatim>\<open>try/except\<close> of the source
    is a case distinction on it.
\<close>

subsection \<open>Strings\<close>

definition is_digit :: "char \<Rightarrow> bool" where
  "is_digit c = (CHR ''0'' \<le> c \<and> c \<le> CHR ''9'')"

definition is_space :: "char \<Rightarrow> bool" where
  "is_space c = (let n = (of_char c :: nat) in (9 \<le> n \<and> n \<le> 13) \<or> (28 \<le> n \<and> n \<le> 32))"

definition lower_char :: "char \<Rightarrow> char" where
  "lower_char c = (if CHR ''A'' \<le> c \<and> c \<le> CHR ''Z'' then char_of (of_char c + (32::nat)) else c)"

definition lower :: "string \<Rightarrow> string" where
  "lower s = map lower_char s"

definition startswith :: "string \<Rightarrow> string \<Rightarrow> bool" where
  "startswith s p = (take (length p) s = p)"

text \<open>\<^verbatim>\<open>sub in s\<close>: \<open>sub\<close> occurs in \<open>s\<close> as a contiguous substring.\<close>

fun str_in :: "string \<Rightarrow> string \<Rightarrow> bool" where
  "str_in sub [] = (sub = [])"
| "str_in sub (c # cs) = (startswith (c # cs) sub \<or> str_in sub cs)"

text \<open>\<^verbatim>\<open>any(keyword in sentence.lower() for keyword in keywords)\<close>\<close>

definition any_keyword :: "string list \<Rightarrow> string \<Rightarrow> bool" where
  "any_keyword keywords sentence = list_ex (\<lambda>keyword. str_in keyword (lower sentence)) keywords"

subsection \<open>The regular expressions\<close>

text \<open>
  Each pattern is a matcher at the head of a string that returns the text of the group
  \<^verbatim>\<open>re.findall\<close> reports and the length of the whole match. None of the patterns needs
  backtracking: every greedy part is followed by something that cannot start with a
  character the greedy part would give back.
\<close>

type_synonym matcher = "string \<Rightarrow> (string \<times> nat) option"

text \<open>\<^verbatim>\<open>\d+(?:\.\d+)?\<close>\<close>

definition match_decimal :: "string \<Rightarrow> string option" where
  "match_decimal s =
     (let ds = takeWhile is_digit s; r = dropWhile is_digit s in
      if ds = [] then None
      else (case r of
              [] \<Rightarrow> Some ds
            | c # r' \<Rightarrow>
                if c = CHR ''.'' \<and> takeWhile is_digit r' \<noteq> []
                then Some (ds @ CHR ''.'' # takeWhile is_digit r')
                else Some ds))"

text \<open>\<^verbatim>\<open>\$?(\d+(?:\.\d+)?)\<close>\<close>

definition price_pattern :: matcher where
  "price_pattern s =
     (case s of
        [] \<Rightarrow> None
      | c # r \<Rightarrow>
          if c = CHR ''$''
          then map_option (\<lambda>m. (m, Suc (length m))) (match_decimal r)
          else map_option (\<lambda>m. (m, length m)) (match_decimal s))"

text \<open>\<^verbatim>\<open>(\d+(?:\.\d+)?)\s*\%\<close>\<close>

definition percentage_pattern :: matcher where
  "percentage_pattern s =
     (case match_decimal s of
        None \<Rightarrow> None
      | Some m \<Rightarrow>
          (let r = drop (length m) s; ws = takeWhile is_space r in
           case dropWhile is_space r of
             [] \<Rightarrow> None
           | c # _ \<Rightarrow> if c = CHR ''%'' then Some (m, Suc (length m + length ws)) else None))"

text \<open>\<^verbatim>\<open>\d{4}-\d{2}-\d{2}\<close>\<close>

definition date_pattern :: matcher where
  "date_pattern s =
     (if 10 \<le> length s
         \<and> list_all is_digit (take 4 s) \<and> s ! 4 = CHR ''-''
         \<and> list_all is_digit (take 2 (drop 5 s)) \<and> s ! 7 = CHR ''-''
         \<and> list_all is_digit (take 2 (drop 8 s))
      then Some (take 10 s, 10) else None)"

text \<open>\<^verbatim>\<open>pattern.search(s)\<close> as a truth value: the pattern matches at some position.\<close>

fun re_search :: "matcher \<Rightarrow> string \<Rightarrow> bool" where
  "re_search p [] = False"
| "re_search p (c # cs) = (p (c # cs) \<noteq> None \<or> re_search p cs)"

text \<open>
  \<^verbatim>\<open>re.findall(pattern, s)\<close>: the groups of the non-overlapping matches, left to right.
  The counter is the number of characters still covered by the last match.
\<close>

fun findall_from :: "matcher \<Rightarrow> nat \<Rightarrow> string \<Rightarrow> string list" where
  "findall_from p k [] = []"
| "findall_from p (Suc k) (c # cs) = findall_from p k cs"
| "findall_from p 0 (c # cs) =
     (case p (c # cs) of
        None \<Rightarrow> findall_from p 0 cs
      | Some (g, n) \<Rightarrow> g # findall_from p (n - 1) cs)"

definition findall :: "matcher \<Rightarrow> string \<Rightarrow> string list" where
  "findall p s = findall_from p 0 s"

text \<open>\<^verbatim>\<open>float(number)\<close> on a string of the shape \<^verbatim>\<open>\d+(\.\d+)?\<close>.\<close>

definition digit_val :: "char \<Rightarrow> nat" where
  "digit_val c = of_char c - 48"

definition digits_val :: "string \<Rightarrow> nat" where
  "digits_val ds = foldl (\<lambda>a c. 10 * a + digit_val c) 0 ds"

definition py_float :: "string \<Rightarrow> real" where
  "py_float s =
     (let ip = takeWhile is_digit s; fp = drop (Suc (length ip)) s in
      real (digits_val ip) + real (digits_val fp) / 10 ^ length fp)"

subsection \<open>Claims and their extraction\<close>

record claim =
  claim_text :: string
  claim_type :: string

definition trend_keywords :: "string list" where
  "trend_keywords =
     [''increased'', ''decreased'', ''risen'', ''fell'', ''grew'', ''declined'', ''improved'',
      ''deteriorated'', ''higher'', ''lower'', ''upward'', ''downward'', ''bullish'', ''bearish'',
      ''outperformed'', ''underperformed'']"

definition volatility_keywords :: "string list" where
  "volatility_keywords = [''volatile'', ''stability'', ''fluctuation'', ''variability'', ''deviation'']"

definition comparison_keywords :: "string list" where
  "comparison_keywords =
     [''compared to'', ''relative to'', ''versus'', ''against'', ''outperformed'',
      ''underperformed'', ''better than'', ''worse than'', ''higher than'', ''lower than'']"

text \<open>The claim types the extractor can assign.\<close>

definition claim_types :: "string list" where
  "claim_types =
     [''price_claim'', ''price_trend_claim'', ''percentage_claim'', ''percentage_trend_claim'',
      ''date_specific_claim'', ''trend_claim'', ''volatility_claim'', ''comparison_claim'']"

text \<open>
  The body of the loop over the sentences: \<open>None\<close> where the source reaches a
  \<^verbatim>\<open>continue\<close> (or the end of the body) without appending, \<open>Some\<close> the appended claim.
\<close>

definition classify :: "string \<Rightarrow> claim option" where
  "classify sentence =
     (if startswith sentence ''#'' \<or> startswith sentence ''##'' \<or> startswith sentence ''###''
      then None
      else if str_in ''disclaimer'' (lower sentence) \<or> str_in ''note:'' (lower sentence)
      then None
      else if re_search price_pattern sentence
      then Some \<lparr>claim_text = sentence,
                 claim_type = (if any_keyword trend_keywords sentence
                               then ''price_trend_claim'' else ''price_claim'')\<rparr>
      else if re_search percentage_pattern sentence
      then Some \<lparr>claim_text = sentence,
                 claim_type = (if any_keyword trend_keywords sentence
                               then ''percentage_trend_claim'' else ''percentage_claim'')\<rparr>
      else if re_search date_pattern sentence
      then Some \<lparr>claim_text = sentence, claim_type = ''date_specific_claim''\<rparr>
      else if any_keyword trend_keywords sentence
      then Some \<lparr>claim_text = sentence, claim_type = ''trend_claim''\<rparr>
      else if any_keyword volatility_keywords sentence
      then Some \<lparr>claim_text = sentence, claim_type = ''volatility_claim''\<rparr>
      else if any_keyword comparison_keywords sentence
      then Some \<lparr>claim_text = sentence, claim_type = ''comparison_claim''\<rparr>
      else None)"

fun collect_claims :: "string list \<Rightarrow> claim list" where
  "collect_claims [] = []"
| "collect_claims (sentence # sentences) =
     (case classify sentence of
        None \<Rightarrow> collect_claims sentences
      | Some c \<Rightarrow> c # collect_claims sentences)"

text \<open>
  The tokenizer returns \<open>None\<close> when it raises; the \<^verbatim>\<open>except\<close> clause of the extractor
  turns that into the empty list.
\<close>

type_synonym tokenizer = "string \<Rightarrow> string list option"

definition extract_factual_claims :: "tokenizer \<Rightarrow> string \<Rightarrow> claim list" where
  "extract_factual_claims sent_tokenize narrative =
     (case sent_tokenize narrative of
        None \<Rightarrow> []
      | Some sentences \<Rightarrow> take 15 (collect_claims sentences))"

subsection \<open>The dataset\<close>

text \<open>
  A data frame is its list of column names and its rows. A row has a cell for every column
  the module reads; the cells of a column that is not among the names are never read.
  A timestamp is (year, month, day), ordered lexicographically; a missing value (NaN) of
  an optional column is \<open>None\<close>.
\<close>

type_synonym timestamp = "nat \<times> nat \<times> nat"

record row =
  Date :: timestamp
  Low :: real
  High :: real
  Close :: real
  Volume :: real
  MA_20 :: "real option"
  MA_50 :: "real option"
  Volatility_20d :: "real option"

record dataframe =
  columns :: "string list"
  rows :: "row list"

datatype error = KeyError string | ValueError | IndexError

text \<open>\<^verbatim>\<open>financial_data[name]\<close>\<close>

definition column :: "dataframe \<Rightarrow> string \<Rightarrow> (row \<Rightarrow> 'a) \<Rightarrow> error + 'a list" where
  "column df name cell =
     (if name \<in> set (columns df) then Inr (map cell (rows df)) else Inl (KeyError name))"

definition bind_err :: "error + 'a \<Rightarrow> ('a \<Rightarrow> error + 'b) \<Rightarrow> error + 'b" where
  "bind_err m f = (case m of Inl e \<Rightarrow> Inl e | Inr x \<Rightarrow> f x)"

text \<open>\<^verbatim>\<open>.iloc[0]\<close> and \<^verbatim>\<open>.iloc[-1]\<close>\<close>

definition iloc_first :: "'a list \<Rightarrow> error + 'a" where
  "iloc_first xs = (case xs of [] \<Rightarrow> Inl IndexError | x # _ \<Rightarrow> Inr x)"

definition iloc_last :: "'a list \<Rightarrow> error + 'a" where
  "iloc_last xs = (if xs = [] then Inl IndexError else Inr (last xs))"

text \<open>
  \<^verbatim>\<open>.min().strftime('%Y-%m-%d')\<close> on the Date column: the minimum of an empty column is
  NaT, whose \<^verbatim>\<open>strftime\<close> raises. The years of a pandas timestamp have four digits.
\<close>

definition digit_char :: "nat \<Rightarrow> char" where
  "digit_char n = ''0123456789'' ! (n mod 10)"

definition strftime :: "timestamp \<Rightarrow> string" where
  "strftime t =
     (case t of (y, m, d) \<Rightarrow>
        [digit_char (y div 1000), digit_char (y div 100), digit_char (y div 10), digit_char y,
         CHR ''-'', digit_char (m div 10), digit_char m,
         CHR ''-'', digit_char (d div 10), digit_char d])"

definition min_strftime :: "timestamp list \<Rightarrow> error + string" where
  "min_strftime ts = (case ts of [] \<Rightarrow> Inl ValueError | t # ts' \<Rightarrow> Inr (strftime (fold min ts' t)))"

definition max_strftime :: "timestamp list \<Rightarrow> error + string" where
  "max_strftime ts = (case ts of [] \<Rightarrow> Inl ValueError | t # ts' \<Rightarrow> Inr (strftime (fold max ts' t)))"

text \<open>\<^verbatim>\<open>.min()\<close>, \<^verbatim>\<open>.max()\<close> and \<^verbatim>\<open>.mean()\<close> of a numeric column with at least one row.\<close>

definition col_min :: "real list \<Rightarrow> real" where
  "col_min xs = fold min (tl xs) (hd xs)"

definition col_max :: "real list \<Rightarrow> real" where
  "col_max xs = fold max (tl xs) (hd xs)"

definition col_mean :: "real list \<Rightarrow> real" where
  "col_mean xs = sum_list xs / real (length xs)"

text \<open>
  \<^verbatim>\<open>create_financial_summary\<close> builds a text that its caller discards; what the caller
  sees of it is whether it raises, and which exception. The accesses are in the order of
  the source (lines 356 to 392).
\<close>

definition create_financial_summary :: "dataframe \<Rightarrow> error + unit" where
  "create_financial_summary df =
     bind_err (column df ''Date'' Date) (\<lambda>dates.
     bind_err (min_strftime dates) (\<lambda>_.
     bind_err (max_strftime dates) (\<lambda>_.
     bind_err (column df ''Low'' Low) (\<lambda>_.
     bind_err (column df ''High'' High) (\<lambda>_.
     bind_err (column df ''Close'' Close) (\<lambda>closes.
     bind_err (iloc_first closes) (\<lambda>_.
     bind_err (column df ''Volume'' Volume) (\<lambda>_. Inr ()))))))))"

subsection \<open>The reference metrics (lines 168 to 198)\<close>

text \<open>
  \<^verbatim>\<open>(price_change / first_close) * 100\<close> on numpy floats: a zero divisor does not raise,
  it gives an infinity or NaN.
\<close>

datatype pct = Finite real | PosInf | NegInf | NaN

definition percent_change :: "real \<Rightarrow> real \<Rightarrow> pct" where
  "percent_change change base =
     (if base \<noteq> 0 then Finite (change / base * 100)
      else if 0 < change then PosInf
      else if change < 0 then NegInf
      else NaN)"

text \<open>\<^verbatim>\<open>abs(pct_value - abs(price_change_pct)) <= k\<close>\<close>

definition pct_within :: "real \<Rightarrow> pct \<Rightarrow> real \<Rightarrow> bool" where
  "pct_within pct_value p k = (case p of Finite x \<Rightarrow> \<bar>pct_value - \<bar>x\<bar>\<bar> \<le> k | _ \<Rightarrow> False)"

text \<open>\<^verbatim>\<open>price_change_pct > 0\<close>\<close>

definition pct_positive :: "pct \<Rightarrow> bool" where
  "pct_positive p = (case p of Finite x \<Rightarrow> 0 < x | PosInf \<Rightarrow> True | _ \<Rightarrow> False)"

record metrics =
  start_date :: string
  end_date :: string
  first_close :: real
  last_close :: real
  price_change :: real
  price_change_pct :: pct
  price_min :: real
  price_max :: real
  avg_volume :: real
  max_volume :: real
  ma_20 :: "real option"
  ma_50 :: "real option"
  volatility :: "real option"

definition financial_metrics :: "dataframe \<Rightarrow> error + metrics" where
  "financial_metrics df =
     bind_err (column df ''Date'' Date) (\<lambda>dates.
     bind_err (min_strftime dates) (\<lambda>start.
     bind_err (max_strftime dates) (\<lambda>end.
     bind_err (column df ''Close'' Close) (\<lambda>closes.
     bind_err (iloc_first closes) (\<lambda>first.
     bind_err (iloc_last closes) (\<lambda>lst.
     bind_err (column df ''Low'' Low) (\<lambda>lows.
     bind_err (column df ''High'' High) (\<lambda>highs.
     bind_err (column df ''Volume'' Volume) (\<lambda>volumes.
     bind_err (if ''MA_20'' \<in> set (columns df) \<and> ''MA_50'' \<in> set (columns df)
               then bind_err (iloc_last (map MA_20 (rows df))) (\<lambda>a.
                    bind_err (iloc_last (map MA_50 (rows df))) (\<lambda>b. Inr (a, b)))
               else Inr (None, None)) (\<lambda>ma.
     bind_err (if ''Volatility_20d'' \<in> set (columns df)
               then bind_err (iloc_last (map Volatility_20d (rows df))) (\<lambda>v.
                    Inr (map_option (\<lambda>x. x * 100) v))
               else Inr None) (\<lambda>vol.
     Inr \<lparr>start_date = start, end_date = end,
          first_close = first, last_close = lst,
          price_change = lst - first,
          price_change_pct = percent_change (lst - first) first,
          price_min = col_min lows, price_max = col_max highs,
          avg_volume = col_mean volumes, max_volume = col_max volumes,
          ma_20 = fst ma, ma_50 = snd ma, volatility = vol\<rparr>)))))))))))"

subsection \<open>Verification of one claim\<close>

text \<open>
  The explanation is kept as the message template with the values it embeds; rendering
  them as text (the float formatting of the f-strings) is not modelled.
\<close>

datatype explanation =
    NoDataPoints
  | PriceWithin real real real
  | PriceClose real real real
  | PriceOutside real real real
  | PctMatches real pct
  | PctClose real pct
  | PctDiffers real pct
  | DateInside string string string
  | DateOutside string string string
  | TrendMatches pct
  | TrendContradicts pct
  | VolatilityConsistent real
  | VolatilityContradicts real
  | SentimentMatches
  | SentimentContradicts
  | ErrorDuring error

record verification = claim +
  consistency_score :: real
  verification_result :: string
  explanation :: explanation

text \<open>The three locals a rule assigns: score, verdict and explanation.\<close>

type_synonym outcome = "real \<times> string \<times> explanation"

text \<open>Lines 212 to 228: the first two branches end the loop, the third does not.\<close>

fun price_loop :: "real \<Rightarrow> real \<Rightarrow> real list \<Rightarrow> outcome \<Rightarrow> outcome" where
  "price_loop pmin pmax [] acc = acc"
| "price_loop pmin pmax (num_value # numbers) acc =
     (if pmin * 0.9 \<le> num_value \<and> num_value \<le> pmax * 1.1
      then (0.9, ''verified'', PriceWithin num_value pmin pmax)
      else if pmin * 0.7 \<le> num_value \<and> num_value \<le> pmax * 1.3
      then (0.7, ''partially verified'', PriceClose num_value pmin pmax)
      else price_loop pmin pmax numbers (0.2, ''contradicted'', PriceOutside num_value pmin pmax))"

text \<open>Lines 232 to 248.\<close>

fun percentage_loop :: "pct \<Rightarrow> real list \<Rightarrow> outcome \<Rightarrow> outcome" where
  "percentage_loop p [] acc = acc"
| "percentage_loop p (pct_value # percentages) acc =
     (if pct_within pct_value p 2
      then (0.95, ''verified'', PctMatches pct_value p)
      else if pct_within pct_value p 5
      then (0.7, ''partially verified'', PctClose pct_value p)
      else percentage_loop p percentages (0.3, ''contradicted'', PctDiffers pct_value p))"

text \<open>Lines 253 to 262; the comparison of strings is Python's, by code point.\<close>

fun date_loop :: "string \<Rightarrow> string \<Rightarrow> string list \<Rightarrow> outcome \<Rightarrow> outcome" where
  "date_loop start end [] acc = acc"
| "date_loop start end (date # dates) acc =
     (if date \<ge> start \<and> date \<le> end
      then (0.9, ''verified'', DateInside date start end)
      else date_loop start end dates (0.1, ''contradicted'', DateOutside date start end))"

definition uptrend_words :: "string list" where
  "uptrend_words =
     [''increase'', ''increased'', ''rise'', ''risen'', ''grew'', ''growth'', ''upward'', ''higher'',
      ''up'', ''bullish'']"

definition downtrend_words :: "string list" where
  "downtrend_words =
     [''decrease'', ''decreased'', ''fall'', ''fell'', ''decline'', ''declined'', ''downward'',
      ''lower'', ''down'', ''bearish'']"

definition high_volatility_words :: "string list" where
  "high_volatility_words = [''high'', ''significant'', ''increased'', ''substantial'']"

definition low_volatility_words :: "string list" where
  "low_volatility_words = [''low'', ''decreased'', ''minimal'', ''limited'', ''reduced'']"

text \<open>Lines 200 to 322: the default outcome and the dispatch on the claim type.\<close>

definition check_claim :: "(string \<Rightarrow> real) \<Rightarrow> string \<Rightarrow> string \<Rightarrow> metrics \<Rightarrow> outcome" where
  "check_claim compound text type m =
     (let default = (0.5, ''unverified'', NoDataPoints);
          extracted_numbers = findall price_pattern text;
          extracted_percentages = findall percentage_pattern text
      in
      if type = ''price_claim'' \<or> type = ''price_trend_claim''
      then price_loop (price_min m) (price_max m) (map py_float extracted_numbers) default
      else if type = ''percentage_claim'' \<or> type = ''percentage_trend_claim''
      then percentage_loop (price_change_pct m) (map py_float extracted_percentages) default
      else if type = ''date_specific_claim''
      then date_loop (start_date m) (end_date m) (findall date_pattern text) default
      else if type = ''trend_claim''
      then (let is_uptrend_claim = any_keyword uptrend_words text;
                is_downtrend_claim = any_keyword downtrend_words text;
                actual_uptrend = (price_change m > 0)
            in if (is_uptrend_claim \<and> actual_uptrend) \<or> (is_downtrend_claim \<and> \<not> actual_uptrend)
               then (0.9, ''verified'', TrendMatches (price_change_pct m))
               else (0.1, ''contradicted'', TrendContradicts (price_change_pct m)))
      else if type = ''volatility_claim''
      then (let is_high_volatility_claim = any_keyword high_volatility_words text;
                is_low_volatility_claim = any_keyword low_volatility_words text
            in case volatility m of
                 None \<Rightarrow> default
               | Some v \<Rightarrow>
                   if (is_high_volatility_claim \<and> v > 2.0) \<or> (is_low_volatility_claim \<and> v \<le> 2.0)
                   then (0.9, ''verified'', VolatilityConsistent v)
                   else (0.2, ''contradicted'', VolatilityContradicts v))
      else if type = ''comparison_claim''
      then (let is_positive_claim = (compound text > 0.1);
                is_negative_claim = (compound text < - 0.1);
                is_positive_actual = pct_positive (price_change_pct m)
            in if (is_positive_claim \<and> is_positive_actual) \<or> (is_negative_claim \<and> \<not> is_positive_actual)
               then (0.7, ''partially verified'', SentimentMatches)
               else (0.3, ''partially contradicted'', SentimentContradicts))
      else default)"

text \<open>Lines 169 to 198 in sequence: the summary first, then the metrics.\<close>

definition reference_metrics :: "dataframe \<Rightarrow> error + metrics" where
  "reference_metrics df = bind_err (create_financial_summary df) (\<lambda>_. financial_metrics df)"

text \<open>
  The whole of \<^verbatim>\<open>verify_claim_against_data\<close>: whatever the summary or the metrics raise
  is caught by the \<^verbatim>\<open>except\<close> clause (lines 333 to 341) and becomes the error result.
\<close>

definition verify_claim_against_data :: "(string \<Rightarrow> real) \<Rightarrow> claim \<Rightarrow> dataframe \<Rightarrow> verification" where
  "verify_claim_against_data compound claim df =
     (case reference_metrics df of
        Inl e \<Rightarrow>
          \<lparr>claim_text = claim_text claim, claim_type = claim_type claim,
           consistency_score = 0.0, verification_result = ''error'',
           explanation = ErrorDuring e\<rparr>
      | Inr m \<Rightarrow>
          (case check_claim compound (claim_text claim) (claim_type claim) m of
             (score, result, expl) \<Rightarrow>
               \<lparr>claim_text = claim_text claim, claim_type = claim_type claim,
                consistency_score = score, verification_result = result,
                explanation = expl\<rparr>))"

subsection \<open>The report\<close>

record report =
  overall_score :: real
  checked_claims :: nat
  claim_checks :: "verification list"

text \<open>
  \<^verbatim>\<open>check_narrative_consistency\<close> re-raises whatever its body raises (line 62). The body
  has no raising path: both callees catch their own exceptions, and the division is by a
  length that is positive. So the result is always the \<open>Inr\<close> of the pair it returns.
\<close>

definition check_narrative_consistency ::
  "tokenizer \<Rightarrow> (string \<Rightarrow> real) \<Rightarrow> string \<Rightarrow> dataframe \<Rightarrow> error + report \<times> real" where
  "check_narrative_consistency sent_tokenize compound narrative financial_data =
     (let factual_claims = extract_factual_claims sent_tokenize narrative;
          consistency_checks =
            map (\<lambda>claim. verify_claim_against_data compound claim financial_data) factual_claims;
          score = (if consistency_checks \<noteq> []
                   then sum_list (map consistency_score consistency_checks)
                          / real (length consistency_checks)
                   else 0.0)
      in Inr (\<lparr>overall_score = score,
               checked_claims = length consistency_checks,
               claim_checks = consistency_checks\<rparr>, score))"





subsection \<open>Sample data\<close>

text \<open>
  A two-row frame of one calendar year with the price range 140 to 160; the two closing
  prices are parameters.
\<close>

definition sample_row :: "timestamp \<Rightarrow> real \<Rightarrow> real \<Rightarrow> real \<Rightarrow> row" where
  "sample_row d lo hi c =
     \<lparr>Date = d, Low = lo, High = hi, Close = c, Volume = 1000,
      MA_20 = None, MA_50 = None, Volatility_20d = None\<rparr>"

definition sample_data :: "nat \<Rightarrow> real \<Rightarrow> real \<Rightarrow> dataframe" where
  "sample_data year c0 c1 =
     \<lparr>columns = [''Date'', ''Open'', ''High'', ''Low'', ''Close'', ''Volume''],
      rows = [sample_row (year, 1, 1) 140 150 c0, sample_row (year, 12, 31) 150 160 c1]\<rparr>"

definition sample_metrics :: "nat \<Rightarrow> real \<Rightarrow> real \<Rightarrow> metrics" where
  "sample_metrics year c0 c1 =
     \<lparr>start_date = strftime (year, 1, 1), end_date = strftime (year, 12, 31),
      first_close = c0, last_close = c1, price_change = c1 - c0,
      price_change_pct = percent_change (c1 - c0) c0,
      price_min = 140, price_max = 160, avg_volume = 1000, max_volume = 1000,
      ma_20 = None, ma_50 = None, volatility = None\<rparr>"

text \<open>The tokenizer that returns a given list of sentences.\<close>

definition sentences_of :: "string list \<Rightarrow> tokenizer" where
  "sentences_of ss = (\<lambda>_. Some ss)"

text \<open>A sample list of sentences: a header, three claims, a note and a sentence without claim.\<close>

definition sample_sentences :: "string list" where
  "sample_sentences =
     [''# Report 2022'',
      ''The price of $150.00 was recorded.'',
      ''The stock increased by 12%.'',
      ''Note: figures are rounded.'',
      ''The stock showed a significant downward trend.'',
      ''Nothing happened.'']"

text \<open>Sample claims, one for each rule of the verifier.\<close>

definition sample_price_claim :: claim where
  "sample_price_claim =
     \<lparr>claim_text = ''The price of $150.00 was recorded.'', claim_type = ''price_claim''\<rparr>"

definition sample_price_trend_claim :: claim where
  "sample_price_trend_claim =
     \<lparr>claim_text = ''The stock increased by 12%.'', claim_type = ''price_trend_claim''\<rparr>"

definition sample_trend_claim :: claim where
  "sample_trend_claim =
     \<lparr>claim_text = ''The stock showed a significant downward trend.'',
      claim_type = ''trend_claim''\<rparr>"




definition lower_claim :: claim where
  "lower_claim = \<lparr>claim_text = ''The stock moved lower.'', claim_type = ''trend_claim''\<rparr>"

text \<open>A sentiment analyzer that finds every text neutral.\<close>

definition neutral_polarity :: "string \<Rightarrow> real" where
  "neutral_polarity text = 0"

text \<open>The sample frame of 2022 without its \<open>Volume\<close> column.\<close>

definition sample_without_volume :: dataframe where
  "sample_without_volume =
     \<lparr>columns = [''Date'', ''Open'', ''High'', ''Low'', ''Close''],
      rows = rows (sample_data 2022 144 159.12)\<rparr>"

section \<open>Properties of the extractor\<close>

lemma classify_text: "classify s = Some c \<Longrightarrow> claim_text c = s"
  by (auto simp: classify_def split: if_splits)

lemma classify_type: "classify s = Some c \<Longrightarrow> claim_type c \<in> set claim_types"
  by (auto simp: classify_def claim_types_def split: if_splits)

lemma classify_filters:
  "classify s = Some c \<Longrightarrow>
     \<not> startswith s ''#'' \<and> \<not> str_in ''disclaimer'' (lower s) \<and> \<not> str_in ''note:'' (lower s)"
  by (auto simp: classify_def split: if_splits)

text \<open>Every detector needs at least one character: the empty sentence is never a claim.\<close>

lemma classify_Nil: "classify [] = None"
  by (simp add: classify_def any_keyword_def lower_def startswith_def
        trend_keywords_def volatility_keywords_def comparison_keywords_def)

lemma collect_claims_set:
  "c \<in> set (collect_claims ss) \<Longrightarrow> \<exists>s \<in> set ss. classify s = Some c"
  by (induction ss) (auto split: option.splits)

lemma collect_claims_subseq: "subseq (map claim_text (collect_claims ss)) ss"
  by (induction ss) (auto split: option.splits simp: classify_text)

lemma extract_set:
  "c \<in> set (extract_factual_claims tok n) \<Longrightarrow> \<exists>s. classify s = Some c"
proof (cases "tok n")
  case None
  assume "c \<in> set (extract_factual_claims tok n)"
  with None show ?thesis by (simp add: extract_factual_claims_def)
next
  case (Some ss)
  assume "c \<in> set (extract_factual_claims tok n)"
  with Some have "c \<in> set (collect_claims ss)"
    by (auto simp: extract_factual_claims_def dest: in_set_takeD)
  then show ?thesis by (blast dest: collect_claims_set)
qed

text \<open>A percentage token starts with a number token.\<close>

lemma percentage_match_is_price_match:
  "percentage_pattern s \<noteq> None \<Longrightarrow> price_pattern s \<noteq> None"
  by (cases s) (auto simp: percentage_pattern_def price_pattern_def match_decimal_def Let_def
      is_digit_def split: option.splits list.splits if_splits)

lemma percentage_search_is_price_search:
  "re_search percentage_pattern s \<Longrightarrow> re_search price_pattern s"
proof (induction s)
  case Nil
  then show ?case by simp
next
  case (Cons c cs)
  show ?case
  proof (cases "percentage_pattern (c # cs) = None")
    case True
    with Cons show ?thesis by simp
  next
    case False
    then have "price_pattern (c # cs) \<noteq> None"
      by (rule percentage_match_is_price_match)
    then show ?thesis by simp
  qed
qed

lemma classify_not_percentage:
  "classify s = Some c \<Longrightarrow>
     claim_type c \<noteq> ''percentage_claim'' \<and> claim_type c \<noteq> ''percentage_trend_claim''"
  by (auto simp: classify_def split: if_splits dest: percentage_search_is_price_search)

lemma sample_extraction:
  "extract_factual_claims (sentences_of sample_sentences) [] =
     [sample_price_claim, sample_price_trend_claim, sample_trend_claim]"
  by code_simp

text \<open>
  C3. A sentence in which the percentage pattern matches is a sentence in which the price
  pattern matches, so the price branch of the classifier takes it first: no extracted
  claim has the type \<^verbatim>\<open>percentage_claim\<close> or \<^verbatim>\<open>percentage_trend_claim\<close>.
\<close>

theorem percentage_types_never_extracted:
  "(\<forall>s. re_search percentage_pattern s \<longrightarrow> re_search price_pattern s)
   \<and> (\<forall>c \<in> set (extract_factual_claims tok n).
         claim_type c \<noteq> ''percentage_claim'' \<and> claim_type c \<noteq> ''percentage_trend_claim'')"
  by (blast dest: percentage_search_is_price_search extract_set classify_not_percentage)

theorem percentage_types_never_extracted_witness:
  "re_search percentage_pattern (claim_text sample_price_trend_claim)
   \<and> re_search price_pattern (claim_text sample_price_trend_claim)
   \<and> sample_price_trend_claim \<in> set (extract_factual_claims (sentences_of sample_sentences) [])
   \<and> claim_type sample_price_trend_claim \<noteq> ''percentage_claim''
   \<and> claim_type sample_price_trend_claim \<noteq> ''percentage_trend_claim''"
proof -
  have pct: "re_search percentage_pattern (claim_text sample_price_trend_claim)"
    by code_simp
  have mem: "sample_price_trend_claim
               \<in> set (extract_factual_claims (sentences_of sample_sentences) [])"
    by (simp only: sample_extraction list.set insert_iff simp_thms)
  from percentage_types_never_extracted [of "sentences_of sample_sentences" "[]"] pct mem
  show ?thesis by blast
qed

text \<open>
  C6. The extractor returns at most 15 claims; their texts are, in order, sentences of the
  tokenized narrative; each claim has a non-empty text and a type of the fixed list; and
  no claim is a sentence that starts with \<open>#\<close> or contains \<open>disclaimer\<close> or \<open>note:\<close> in
  any case.
\<close>

theorem extraction_properties:
  "length (extract_factual_claims tok n) \<le> 15
   \<and> (\<forall>c \<in> set (extract_factual_claims tok n).
         claim_text c \<noteq> [] \<and> claim_type c \<in> set claim_types
         \<and> \<not> startswith (claim_text c) ''#''
         \<and> \<not> str_in ''disclaimer'' (lower (claim_text c))
         \<and> \<not> str_in ''note:'' (lower (claim_text c)))
   \<and> (\<forall>ss. tok n = Some ss \<longrightarrow> subseq (map claim_text (extract_factual_claims tok n)) ss)"
proof (intro conjI ballI allI impI)
  show "length (extract_factual_claims tok n) \<le> 15"
    by (simp add: extract_factual_claims_def split: option.splits)
next
  fix c assume "c \<in> set (extract_factual_claims tok n)"
  then obtain s where s: "classify s = Some c"
    by (blast dest: extract_set)
  then have t: "claim_text c = s"
    by (rule classify_text)
  from s show "claim_text c \<noteq> []"
    using classify_Nil t by auto
  from s show "claim_type c \<in> set claim_types"
    by (rule classify_type)
  from classify_filters [OF s] t
  show "\<not> startswith (claim_text c) ''#''"
    and "\<not> str_in ''disclaimer'' (lower (claim_text c))"
    and "\<not> str_in ''note:'' (lower (claim_text c))"
    by simp_all
next
  fix ss assume "tok n = Some ss"
  then have "extract_factual_claims tok n = take 15 (collect_claims ss)"
    by (simp add: extract_factual_claims_def)
  moreover have "subseq (map claim_text (take 15 (collect_claims ss)))
                        (map claim_text (collect_claims ss))"
    by (metis append_take_drop_id list_emb_prefix map_append subseq_order.order_refl)
  ultimately show "subseq (map claim_text (extract_factual_claims tok n)) ss"
    using collect_claims_subseq [of ss] by (metis subseq_order.order_trans)
qed

theorem extraction_properties_witness:
  "sentences_of sample_sentences [] = Some sample_sentences
   \<and> sample_price_claim \<in> set (extract_factual_claims (sentences_of sample_sentences) [])
   \<and> length (extract_factual_claims (sentences_of sample_sentences) []) \<le> 15
   \<and> claim_text sample_price_claim \<noteq> []
   \<and> claim_type sample_price_claim \<in> set claim_types
   \<and> \<not> startswith (claim_text sample_price_claim) ''#''
   \<and> \<not> str_in ''disclaimer'' (lower (claim_text sample_price_claim))
   \<and> \<not> str_in ''note:'' (lower (claim_text sample_price_claim))
   \<and> subseq (map claim_text (extract_factual_claims (sentences_of sample_sentences) []))
        sample_sentences"
proof -
  have tok: "sentences_of sample_sentences [] = Some sample_sentences"
    by (simp add: sentences_of_def)
  have mem: "sample_price_claim \<in> set (extract_factual_claims (sentences_of sample_sentences) [])"
    by (simp only: sample_extraction list.set insert_iff simp_thms)
  from extraction_properties [of "sentences_of sample_sentences" "[]"] tok mem
  show ?thesis by blast
qed

section \<open>Properties of the verifier\<close>

subsection \<open>The loops\<close>










lemma price_loop_range:
  "0 \<le> fst acc \<Longrightarrow> fst acc \<le> 1 \<Longrightarrow>
   0 \<le> fst (price_loop lo hi vs acc) \<and> fst (price_loop lo hi vs acc) \<le> 1"
  by (induction vs arbitrary: acc) auto

lemma percentage_loop_range:
  "0 \<le> fst acc \<Longrightarrow> fst acc \<le> 1 \<Longrightarrow>
   0 \<le> fst (percentage_loop p vs acc) \<and> fst (percentage_loop p vs acc) \<le> 1"
  by (induction vs arbitrary: acc) auto

lemma date_loop_range:
  "0 \<le> fst acc \<Longrightarrow> fst acc \<le> 1 \<Longrightarrow>
   0 \<le> fst (date_loop s e ds acc) \<and> fst (date_loop s e ds acc) \<le> 1"
  by (induction ds arbitrary: acc) auto

subsection \<open>The dispatch\<close>




lemma check_claim_trend:
  "type = ''trend_claim'' \<Longrightarrow>
   check_claim compound text type m =
     (if (any_keyword uptrend_words text \<and> price_change m > 0)
          \<or> (any_keyword downtrend_words text \<and> \<not> price_change m > 0)
      then (0.9, ''verified'', TrendMatches (price_change_pct m))
      else (0.1, ''contradicted'', TrendContradicts (price_change_pct m)))"
  by (auto simp: check_claim_def Let_def)

lemma check_claim_range:
  "0 \<le> fst (check_claim compound text type m) \<and> fst (check_claim compound text type m) \<le> 1"
  using price_loop_range [of "(0.5, ''unverified'', NoDataPoints)"]
        percentage_loop_range [of "(0.5, ''unverified'', NoDataPoints)"]
        date_loop_range [of "(0.5, ''unverified'', NoDataPoints)"]
  by (simp add: check_claim_def Let_def split: option.splits)

lemma verify_score:
  "consistency_score (verify_claim_against_data compound c d) =
     (case reference_metrics d of
        Inl e \<Rightarrow> 0
      | Inr m \<Rightarrow> fst (check_claim compound (claim_text c) (claim_type c) m))"
  by (simp add: verify_claim_against_data_def split: sum.splits prod.splits)

lemma verify_result:
  "verification_result (verify_claim_against_data compound c d) =
     (case reference_metrics d of
        Inl e \<Rightarrow> ''error''
      | Inr m \<Rightarrow> fst (snd (check_claim compound (claim_text c) (claim_type c) m)))"
  by (simp add: verify_claim_against_data_def split: sum.splits prod.splits)

lemma verify_claim_text:
  "claim_text (verify_claim_against_data compound c d) = claim_text c"
  by (simp add: verify_claim_against_data_def split: sum.splits prod.splits)

lemma verify_range:
  "0 \<le> consistency_score (verify_claim_against_data compound c d)
   \<and> consistency_score (verify_claim_against_data compound c d) \<le> 1"
  using check_claim_range by (simp add: verify_score split: sum.splits)

subsection \<open>The metrics\<close>

lemma bind_err_Inr: "bind_err m f = Inr y \<Longrightarrow> \<exists>x. m = Inr x \<and> f x = Inr y"
  by (cases m) (auto simp: bind_err_def)

lemma financial_metrics_price_change:
  "financial_metrics d = Inr m \<Longrightarrow> price_change m = last_close m - first_close m"
  unfolding financial_metrics_def
  by (auto dest!: bind_err_Inr)

lemma reference_metrics_price_change:
  "reference_metrics d = Inr m \<Longrightarrow> price_change m = last_close m - first_close m"
  unfolding reference_metrics_def
  by (auto dest!: bind_err_Inr financial_metrics_price_change)

lemma summary_missing:
  assumes "name \<in> set [''Date'', ''Low'', ''High'', ''Close'', ''Volume'']"
    and "name \<notin> set (columns d)"
  shows "\<exists>e. create_financial_summary d = Inl e"
proof (cases "create_financial_summary d")
  case (Inl e)
  then show ?thesis by blast
next
  case (Inr u)
  then have "''Date'' \<in> set (columns d) \<and> ''Low'' \<in> set (columns d)
      \<and> ''High'' \<in> set (columns d) \<and> ''Close'' \<in> set (columns d)
      \<and> ''Volume'' \<in> set (columns d)"
    unfolding create_financial_summary_def
    by (auto dest!: bind_err_Inr simp: column_def split: if_splits)
  with assms show ?thesis by auto
qed

lemma reference_metrics_missing:
  assumes "name \<in> set [''Date'', ''Low'', ''High'', ''Close'', ''Volume'']"
    and "name \<notin> set (columns d)"
  shows "\<exists>e. reference_metrics d = Inl e"
  using summary_missing [OF assms] by (auto simp: reference_metrics_def bind_err_def)

lemma sample_reference_metrics:
  "reference_metrics (sample_data year c0 c1) = Inr (sample_metrics year c0 c1)"
  by (simp add: reference_metrics_def create_financial_summary_def financial_metrics_def
      sample_data_def sample_row_def sample_metrics_def column_def bind_err_def
      min_strftime_def max_strftime_def iloc_first_def iloc_last_def
      col_min_def col_max_def col_mean_def min_def max_def)

lemma sample_without_volume_metrics:
  "reference_metrics sample_without_volume = Inl (KeyError ''Volume'')"
  by (simp add: reference_metrics_def create_financial_summary_def
      sample_without_volume_def sample_data_def sample_row_def column_def bind_err_def
      min_strftime_def max_strftime_def iloc_first_def)


lemma sample_closes:
  "first_close (sample_metrics year c0 c1) = c0 \<and> last_close (sample_metrics year c0 c1) = c1"
  by (simp add: sample_metrics_def)



subsection \<open>The rules\<close>








text \<open>
  C4, as the code has it. For a claim of type \<^verbatim>\<open>trend_claim\<close> the claimed direction
  is read from the two keyword lists and compared with \<^verbatim>\<open>last_close - first_close\<close>:
  an upward keyword with a rise, or a downward keyword with no rise (a fall or no change),
  gives score 0.9 and \<open>verified\<close>; everything else gives score 0.1 and \<open>contradicted\<close>. In
  particular a downward keyword with \<^verbatim>\<open>last_close < first_close\<close> is verified.
\<close>

theorem trend_rule:
  assumes "claim_type c = ''trend_claim''"
    and "reference_metrics d = Inr m"
    and "r = verify_claim_against_data compound c d"
    and "up = any_keyword uptrend_words (claim_text c)"
    and "down = any_keyword downtrend_words (claim_text c)"
  shows "((up \<and> first_close m < last_close m) \<or> (down \<and> last_close m \<le> first_close m) \<longrightarrow>
            consistency_score r = 0.9 \<and> verification_result r = ''verified'')
       \<and> (\<not> ((up \<and> first_close m < last_close m) \<or> (down \<and> last_close m \<le> first_close m)) \<longrightarrow>
            consistency_score r = 0.1 \<and> verification_result r = ''contradicted'')
       \<and> (down \<and> last_close m < first_close m \<longrightarrow>
            consistency_score r = 0.9 \<and> verification_result r = ''verified'')"
proof -
  have pc: "price_change m = last_close m - first_close m"
    using assms(2) by (rule reference_metrics_price_change)
  have chk: "check_claim compound (claim_text c) (claim_type c) m =
      (if (up \<and> price_change m > 0) \<or> (down \<and> \<not> price_change m > 0)
       then (0.9, ''verified'', TrendMatches (price_change_pct m))
       else (0.1, ''contradicted'', TrendContradicts (price_change_pct m)))"
    using assms(1) by (simp only: check_claim_trend assms(4,5))
  have sc: "consistency_score r = fst (check_claim compound (claim_text c) (claim_type c) m)"
    by (simp add: assms(3) verify_score assms(2))
  have vr: "verification_result r =
      fst (snd (check_claim compound (claim_text c) (claim_type c) m))"
    by (simp add: assms(3) verify_result assms(2))
  show ?thesis
    unfolding sc vr chk pc by auto
qed

theorem trend_rule_witness:
  "claim_type sample_trend_claim = ''trend_claim''
   \<and> reference_metrics (sample_data 2022 159.12 144) = Inr (sample_metrics 2022 159.12 144)
   \<and> any_keyword downtrend_words (claim_text sample_trend_claim)
   \<and> last_close (sample_metrics 2022 159.12 144) < first_close (sample_metrics 2022 159.12 144)
   \<and> consistency_score
        (verify_claim_against_data neutral_polarity sample_trend_claim
           (sample_data 2022 159.12 144)) = 0.9
   \<and> verification_result
        (verify_claim_against_data neutral_polarity sample_trend_claim
           (sample_data 2022 159.12 144)) = ''verified''"
proof -
  have ty: "claim_type sample_trend_claim = ''trend_claim''"
    by (simp add: sample_trend_claim_def)
  have down: "any_keyword downtrend_words (claim_text sample_trend_claim)"
    by code_simp
  have fall: "last_close (sample_metrics 2022 159.12 144)
                < first_close (sample_metrics 2022 159.12 144)"
    by (simp add: sample_closes)
  from trend_rule [where compound = neutral_polarity and d = "sample_data 2022 159.12 144",
      OF ty sample_reference_metrics refl refl refl] down fall
  have "consistency_score
        (verify_claim_against_data neutral_polarity sample_trend_claim
           (sample_data 2022 159.12 144)) = 0.9
   \<and> verification_result
        (verify_claim_against_data neutral_polarity sample_trend_claim
           (sample_data 2022 159.12 144)) = ''verified''"
    by blast
  with ty down fall sample_reference_metrics [of 2022 "159.12" 144] show ?thesis
    by blast
qed

text \<open>
  C4, as the claim has it, fails when the price does not move: the claim below has a
  downward keyword and no upward one, the first and the last close are equal, so there is
  no fall to match; the verifier returns score 0.9 and \<open>verified\<close>.
\<close>

theorem flat_price_verifies_downtrend:
  "claim_type lower_claim = ''trend_claim''
   \<and> any_keyword downtrend_words (claim_text lower_claim)
   \<and> \<not> any_keyword uptrend_words (claim_text lower_claim)
   \<and> reference_metrics (sample_data 2022 144 144) = Inr (sample_metrics 2022 144 144)
   \<and> first_close (sample_metrics 2022 144 144) = 144
   \<and> last_close (sample_metrics 2022 144 144) = 144
   \<and> consistency_score
        (verify_claim_against_data neutral_polarity lower_claim (sample_data 2022 144 144)) = 0.9
   \<and> verification_result
        (verify_claim_against_data neutral_polarity lower_claim (sample_data 2022 144 144))
       = ''verified''"
proof -
  have ty: "claim_type lower_claim = ''trend_claim''"
    by (simp add: lower_claim_def)
  have down: "any_keyword downtrend_words (claim_text lower_claim)"
    by code_simp
  have up: "\<not> any_keyword uptrend_words (claim_text lower_claim)"
    by code_simp
  have pc: "price_change (sample_metrics 2022 144 144) = 0"
    by (simp add: sample_metrics_def)
  have chk: "check_claim neutral_polarity (claim_text lower_claim) (claim_type lower_claim)
               (sample_metrics 2022 144 144)
             = (0.9, ''verified'', TrendMatches (price_change_pct (sample_metrics 2022 144 144)))"
    using down up by (simp only: check_claim_trend [OF ty] pc) simp
  have sc: "consistency_score
        (verify_claim_against_data neutral_polarity lower_claim (sample_data 2022 144 144)) = 0.9"
    by (simp only: verify_score sample_reference_metrics sum.case chk fst_conv)
  have vr: "verification_result
        (verify_claim_against_data neutral_polarity lower_claim (sample_data 2022 144 144))
       = ''verified''"
    by (simp only: verify_result sample_reference_metrics sum.case chk fst_conv snd_conv)
  from ty down up sc vr sample_reference_metrics [of 2022 144 144]
    sample_closes [of 2022 144 144]
  show ?thesis by blast
qed

section \<open>Properties of the report\<close>

lemma sum_list_bounds:
  fixes xs :: "real list"
  assumes "\<forall>x \<in> set xs. 0 \<le> x \<and> x \<le> 1"
  shows "0 \<le> sum_list xs \<and> sum_list xs \<le> real (length xs)"
  using assms by (induction xs) auto

lemma mean_bounds:
  fixes xs :: "real list"
  assumes "\<forall>x \<in> set xs. 0 \<le> x \<and> x \<le> 1" and "xs \<noteq> []"
  shows "0 \<le> sum_list xs / real (length xs) \<and> sum_list xs / real (length xs) \<le> 1"
  using sum_list_bounds [OF assms(1)] assms(2) by (simp add: divide_le_eq)

lemma check_narrative_consistency_eq:
  "check_narrative_consistency tok compound n d =
     Inr (\<lparr>overall_score =
             (if extract_factual_claims tok n \<noteq> []
              then sum_list (map (\<lambda>c. consistency_score (verify_claim_against_data compound c d))
                               (extract_factual_claims tok n))
                     / real (length (extract_factual_claims tok n))
              else 0),
           checked_claims = length (extract_factual_claims tok n),
           claim_checks = map (\<lambda>c. verify_claim_against_data compound c d)
                            (extract_factual_claims tok n)\<rparr>,
          (if extract_factual_claims tok n \<noteq> []
           then sum_list (map (\<lambda>c. consistency_score (verify_claim_against_data compound c d))
                            (extract_factual_claims tok n))
                  / real (length (extract_factual_claims tok n))
           else 0))"
  by (simp add: check_narrative_consistency_def Let_def comp_def)

text \<open>
  C9. Every result of the verifier has a score between 0 and 1: the default, each branch
  of each rule, and the error result, which has score 0 and the verdict \<open>error\<close>. So the
  overall score of every report is between 0 and 1, and \<^verbatim>\<open>checked_claims\<close> is the
  length of \<^verbatim>\<open>claim_checks\<close>.
\<close>

theorem scores_in_unit_interval:
  "0 \<le> consistency_score (verify_claim_against_data compound c d)
   \<and> consistency_score (verify_claim_against_data compound c d) \<le> 1
   \<and> (\<forall>e. reference_metrics d = Inl e \<longrightarrow>
         consistency_score (verify_claim_against_data compound c d) = 0
         \<and> verification_result (verify_claim_against_data compound c d) = ''error'')
   \<and> (\<exists>rep. check_narrative_consistency tok compound n d = Inr (rep, overall_score rep)
         \<and> 0 \<le> overall_score rep \<and> overall_score rep \<le> 1
         \<and> checked_claims rep = length (claim_checks rep))"
proof (intro conjI allI impI)
  show "0 \<le> consistency_score (verify_claim_against_data compound c d)"
    and "consistency_score (verify_claim_against_data compound c d) \<le> 1"
    using verify_range [of compound c d] by simp_all
next
  fix e assume "reference_metrics d = Inl e"
  then show "consistency_score (verify_claim_against_data compound c d) = 0"
    and "verification_result (verify_claim_against_data compound c d) = ''error''"
    by (simp_all add: verify_score verify_result)
next
  let ?cs = "extract_factual_claims tok n"
  let ?xs = "map (\<lambda>c. consistency_score (verify_claim_against_data compound c d)) ?cs"
  have all: "\<forall>x \<in> set ?xs. 0 \<le> x \<and> x \<le> 1"
    using verify_range by auto
  have "0 \<le> (if ?cs \<noteq> [] then sum_list ?xs / real (length ?cs) else 0)
      \<and> (if ?cs \<noteq> [] then sum_list ?xs / real (length ?cs) else 0) \<le> 1"
  proof (cases "?cs = []")
    case True
    then show ?thesis by simp
  next
    case False
    then have "?xs \<noteq> []" by simp
    from mean_bounds [OF all this] False show ?thesis by simp
  qed
  then show "\<exists>rep. check_narrative_consistency tok compound n d = Inr (rep, overall_score rep)
         \<and> 0 \<le> overall_score rep \<and> overall_score rep \<le> 1
         \<and> checked_claims rep = length (claim_checks rep)"
    by (simp add: check_narrative_consistency_eq)
qed

theorem scores_in_unit_interval_witness:
  "reference_metrics sample_without_volume = Inl (KeyError ''Volume'')
   \<and> consistency_score
       (verify_claim_against_data neutral_polarity sample_price_claim sample_without_volume) = 0
   \<and> verification_result
       (verify_claim_against_data neutral_polarity sample_price_claim sample_without_volume)
      = ''error''
   \<and> consistency_score
       (verify_claim_against_data neutral_polarity sample_price_claim sample_without_volume) \<le> 1"
  using scores_in_unit_interval [of neutral_polarity sample_price_claim sample_without_volume]
    sample_without_volume_metrics
  by blast




section \<open>A dataset without a mandatory column\<close>

text \<open>
  C1, as the code has it. When one of the columns \<open>Date\<close>, \<open>Low\<close>, \<open>High\<close>, \<open>Close\<close>,
  \<open>Volume\<close> is missing, no error reaches the caller: the failure is caught in the
  verification of each claim, and the call returns a complete report in which every
  extracted claim has the error result (score 0, verdict \<open>error\<close>) and the overall score
  is 0.
\<close>

theorem missing_column_gives_error_report:
  assumes "name \<in> set [''Date'', ''Low'', ''High'', ''Close'', ''Volume'']"
    and "name \<notin> set (columns d)"
  shows "\<exists>rep. check_narrative_consistency tok compound n d = Inr (rep, 0)
           \<and> overall_score rep = 0
           \<and> checked_claims rep = length (extract_factual_claims tok n)
           \<and> map claim_text (claim_checks rep) = map claim_text (extract_factual_claims tok n)
           \<and> (\<forall>v \<in> set (claim_checks rep).
                 consistency_score v = 0 \<and> verification_result v = ''error'')"
proof -
  from reference_metrics_missing [OF assms] obtain e where e: "reference_metrics d = Inl e"
    by blast
  have sc: "consistency_score (verify_claim_against_data compound c d) = 0" for c
    by (simp add: verify_score e)
  have vr: "verification_result (verify_claim_against_data compound c d) = ''error''" for c
    by (simp add: verify_result e)
  show ?thesis
    by (auto simp: check_narrative_consistency_eq sc vr verify_claim_text comp_def)
qed

theorem missing_column_gives_error_report_witness:
  "''Volume'' \<in> set [''Date'', ''Low'', ''High'', ''Close'', ''Volume'']
   \<and> ''Volume'' \<notin> set (columns sample_without_volume)
   \<and> (\<exists>rep. check_narrative_consistency (sentences_of sample_sentences) neutral_polarity []
               sample_without_volume = Inr (rep, 0)
           \<and> overall_score rep = 0
           \<and> checked_claims rep = 3)"
proof -
  have a: "''Volume'' \<in> set [''Date'', ''Low'', ''High'', ''Close'', ''Volume'']"
    by simp
  have b: "''Volume'' \<notin> set (columns sample_without_volume)"
    by (simp add: sample_without_volume_def)
  have c: "length (extract_factual_claims (sentences_of sample_sentences) []) = 3"
    by (simp add: sample_extraction)
  from missing_column_gives_error_report [OF a b, of "sentences_of sample_sentences"
      neutral_polarity "[]"] a b c
  show ?thesis by auto
qed

text \<open>
  C1, as the claim has it, fails: for the sample frame without \<open>Volume\<close> the call does
  not fail; it returns a report with one check, the error result of the one claim.
\<close>

theorem missing_volume_returns_a_report:
  "''Volume'' \<notin> set (columns sample_without_volume)
   \<and> check_narrative_consistency (sentences_of [claim_text sample_price_claim])
        neutral_polarity [] sample_without_volume
      = Inr (\<lparr>overall_score = 0, checked_claims = 1,
               claim_checks =
                 [\<lparr>claim_text = claim_text sample_price_claim, claim_type = ''price_claim'',
                   consistency_score = 0, verification_result = ''error'',
                   explanation = ErrorDuring (KeyError ''Volume'')\<rparr>]\<rparr>, 0)"
proof -
  have ex: "extract_factual_claims (sentences_of [claim_text sample_price_claim]) []
              = [sample_price_claim]"
    by code_simp
  have b: "''Volume'' \<notin> set (columns sample_without_volume)"
    by (simp add: sample_without_volume_def)
  have v: "verify_claim_against_data neutral_polarity sample_price_claim sample_without_volume
             = \<lparr>claim_text = claim_text sample_price_claim, claim_type = ''price_claim'',
                consistency_score = 0, verification_result = ''error'',
                explanation = ErrorDuring (KeyError ''Volume'')\<rparr>"
    by (simp add: verify_claim_against_data_def sample_without_volume_metrics
        sample_price_claim_def)
  from b show ?thesis
    by (simp add: check_narrative_consistency_eq ex v)
qed

end
